theory Spec2Isabelle
  imports Main "HOL-Library.Word"
begin

section \<open>The data model of api.go\<close>

text \<open>
  The generic parameters of the Go source become type variables: \<open>'t\<close> is the internal
  entity type T, \<open>'d\<close> the transport type D, \<open>'p\<close> the type \<open>Page[T]\<close> (declared in
  another file of the package, so it is left open), \<open>'a\<close> the element type of the
  \<open>[]any\<close> a sub-entity getter returns and \<open>'e\<close> the values of Go's \<open>error\<close>.
\<close>

datatype Action = ActionGetAll | ActionGetOne | ActionMutate | ActionCreate | ActionDelete

text \<open>
  What a handler reads from \<open>*fiber.Ctx\<close>: the route parameters (\<open>c.Params\<close>) and the
  result of \<open>c.BodyParser\<close> into a value of type D, which is an error or the decoded
  value.
\<close>

record ('d, 'e) Ctx =
  Params :: "string \<Rightarrow> string"
  BodyParser :: "'e + 'd"

text \<open>
  A Go function value may be nil, so every function field is an \<open>option\<close> and a call
  through \<open>None\<close> is the run-time panic of the source. A Go result \<open>(T, error)\<close> is a
  pair whose second component is \<open>None\<close> for a nil error.
\<close>

record ('t, 'a) SubEntity =
  SubPath :: string
  Get :: "('t \<Rightarrow> 'a list) option"

record ('t, 'd, 'p, 'a, 'e) Api =
  Path :: string
  Find :: "(string \<Rightarrow> 't \<times> bool) option"
  FindAllPage :: "(64 word \<Rightarrow> 'p) option"
  FindAll :: "(unit \<Rightarrow> 't list) option"
  Search :: "('d \<Rightarrow> 't list) option"
  Mutate :: "('t \<Rightarrow> 'd \<Rightarrow> 't \<times> 'e option) option"
  Create :: "('d \<Rightarrow> 't \<times> 'e option) option"
  Delete :: "('t \<Rightarrow> 't \<times> 'e option) option"
  SubEntities :: "('t, 'a) SubEntity list"
  Dto :: "('t \<Rightarrow> 'd) option"
  Validator :: "(('d, 'e) Ctx \<Rightarrow> Action \<Rightarrow> 't list \<Rightarrow> bool) option"

subsection \<open>Responses\<close>

definition StatusBadRequest :: nat where "StatusBadRequest = 400"
definition StatusUnauthorized :: nat where "StatusUnauthorized = 401"
definition StatusNotFound :: nat where "StatusNotFound = 404"
definition StatusInternalServerError :: nat where "StatusInternalServerError = 500"

text \<open>
  The value handed to \<open>c.JSON\<close>: a single D, a slice of D (the empty list is the nil
  slice of the source, which no \<open>append\<close> has touched), a page, or the slice a sub-entity
  getter produced.
\<close>

datatype ('d, 'p, 'a) payload = One 'd | Many "'d list" | Paged 'p | Raw "'a list"

datatype ('d, 'p, 'a) response =
  SendStatus nat
| JSON "('d, 'p, 'a) payload"
| SendString string

subsection \<open>Effects: the calls a handler makes and the lines it logs\<close>

datatype ('t, 'e) arg = Arg_str string | Arg_item 't | Arg_err 'e

datatype ('t, 'd, 'e) event =
  Call_Find string
| Call_FindAll
| Call_FindAllPage "64 word"
| Call_Search 'd
| Call_Mutate 't 'd
| Call_Create 'd
| Call_Delete 't
| Call_Get 't
| Call_Dto 't
| Call_Validator Action "'t list"
| Log_Printf string "('t, 'e) arg list"

datatype 'x outcome = NilDeref | Returned 'x

type_synonym ('t, 'd, 'e, 'x) run = "('t, 'd, 'e) event list \<times> 'x outcome"

definition emit :: "'ev list \<Rightarrow> 'ev list \<times> 'x \<Rightarrow> 'ev list \<times> 'x" where
  "emit evs r = (evs @ fst r, snd r)"

definition reply :: "'x \<Rightarrow> ('t, 'd, 'e, 'x) run" where
  "reply x = ([], Returned x)"

text \<open>Sequencing: a panic ends the run, and the events of both parts are kept in order.\<close>

definition bind :: "('t, 'd, 'e, 'x) run \<Rightarrow> ('x \<Rightarrow> ('t, 'd, 'e, 'y) run) \<Rightarrow> ('t, 'd, 'e, 'y) run" where
  "bind m k = (case snd m of NilDeref \<Rightarrow> (fst m, NilDeref) | Returned x \<Rightarrow> emit (fst m) (k x))"

text \<open>A call through a function field: a nil field panics before anything is recorded.\<close>

definition call :: "'f option \<Rightarrow> ('t, 'd, 'e) event \<Rightarrow> ('f \<Rightarrow> 'x) \<Rightarrow> ('t, 'd, 'e, 'x) run" where
  "call fld ev app = (case fld of None \<Rightarrow> ([], NilDeref) | Some f \<Rightarrow> ([ev], Returned (app f)))"

definition logf :: "string \<Rightarrow> ('t, 'e) arg list \<Rightarrow> ('t, 'd, 'e, unit) run" where
  "logf fmt args = ([Log_Printf fmt args], Returned ())"

text \<open>
  The condition \<open>api.Validator != nil && !api.Validator(c, action, items...)\<close> that opens
  every permission check: the predicate is called only when it is configured.
\<close>

definition denied ::
  "('t, 'd, 'p, 'a, 'e) Api \<Rightarrow> ('d, 'e) Ctx \<Rightarrow> Action \<Rightarrow> 't list \<Rightarrow> ('t, 'd, 'e, bool) run" where
  "denied api c action items =
     (case Validator api of
        None \<Rightarrow> reply False
      | Some v \<Rightarrow> ([Call_Validator action items], Returned (\<not> v c action items)))"

subsection \<open>strconv.ParseInt(s, 10, 64)\<close>

text \<open>
  The paged list parses its route parameter with the Go standard library. This is
  \<open>strconv.ParseInt\<close> at base 10 and bit size 64, with \<open>uint64\<close> as \<open>nat\<close> and the
  wrap-around written out. At base 10 a letter is a digit value of at least 10 and any
  other byte is no digit at all; both are syntax errors. An overflow is reported at the
  digit where it happens, before the rest of the string is read.
\<close>

datatype NumError = ErrSyntax | ErrRange

definition maxUint64 :: nat where "maxUint64 = 2 ^ 64 - 1"

fun ParseUint_loop :: "string \<Rightarrow> nat \<Rightarrow> nat \<times> NumError option" where
  "ParseUint_loop [] n = (n, None)"
| "ParseUint_loop (c # cs) n =
     (if \<not> (48 \<le> (of_char c :: nat) \<and> (of_char c :: nat) \<le> 57) then (0, Some ErrSyntax)
      else let d = (of_char c :: nat) - 48 in
        if n \<ge> maxUint64 div 10 + 1 then (maxUint64, Some ErrRange)
        else let n10 = (n * 10) mod 2 ^ 64; n1 = (n10 + d) mod 2 ^ 64 in
          if n1 < n10 \<or> n1 > maxUint64 then (maxUint64, Some ErrRange)
          else ParseUint_loop cs n1)"

definition ParseUint :: "string \<Rightarrow> nat \<times> NumError option" where
  "ParseUint s = (if s = [] then (0, Some ErrSyntax) else ParseUint_loop s 0)"

definition ParseInt :: "string \<Rightarrow> 64 word \<times> NumError option" where
  "ParseInt s =
     (if s = [] then (0, Some ErrSyntax)
      else let neg = (hd s = CHR ''-'');
               s1 = (if hd s = CHR ''+'' \<or> hd s = CHR ''-'' then tl s else s);
               un = fst (ParseUint s1);
               err = snd (ParseUint s1);
               cutoff = (2 :: nat) ^ 63
           in if err \<noteq> None \<and> err \<noteq> Some ErrRange then (0, err)
              else if \<not> neg \<and> un \<ge> cutoff then (of_nat (cutoff - 1), Some ErrRange)
              else if neg \<and> un > cutoff then (- of_nat cutoff, Some ErrRange)
              else (if neg then - of_nat un else of_nat un, None))"

section \<open>The handlers\<close>

text \<open>
  A handler is a function of the descriptor and the request context. It yields the
  trace of its calls and log lines, and either the response it sent or the panic of a
  call through a nil function.
\<close>

type_synonym ('t, 'd, 'p, 'a, 'e) handler =
  "('d, 'e) Ctx \<Rightarrow> ('t, 'd, 'e, ('d, 'p, 'a) response) run"

text \<open>The loop \<open>for _, v := range vs { all = append(all, api.Dto(v)) }\<close>.\<close>

fun dtoLoop ::
  "('t, 'd, 'p, 'a, 'e) Api \<Rightarrow> 't list \<Rightarrow> 'd list \<Rightarrow> ('t, 'd, 'e, 'd list) run" where
  "dtoLoop api [] all = reply all"
| "dtoLoop api (v # vs) all =
     bind (call (Dto api) (Call_Dto v) (\<lambda>f. f v)) (\<lambda>x. dtoLoop api vs (all @ [x]))"

definition getAll :: "('t, 'd, 'p, 'a, 'e) Api \<Rightarrow> ('t, 'd, 'p, 'a, 'e) handler" where
  "getAll api c =
     bind (denied api c ActionGetAll []) (\<lambda>no.
       if no then reply (SendStatus StatusUnauthorized)
       else bind (call (FindAll api) Call_FindAll (\<lambda>f. f ())) (\<lambda>vs.
            bind (dtoLoop api vs []) (\<lambda>all.
            reply (JSON (Many all)))))"

definition getAllPage :: "('t, 'd, 'p, 'a, 'e) Api \<Rightarrow> ('t, 'd, 'p, 'a, 'e) handler" where
  "getAllPage api c =
     (let id = Params c ''id'';
          i = fst (ParseInt id)
      in bind (denied api c ActionGetAll []) (\<lambda>no.
           if no then reply (SendStatus StatusUnauthorized)
           else bind (call (FindAllPage api) (Call_FindAllPage i) (\<lambda>f. f i)) (\<lambda>all.
                reply (JSON (Paged all)))))"

definition search :: "('t, 'd, 'p, 'a, 'e) Api \<Rightarrow> ('t, 'd, 'p, 'a, 'e) handler" where
  "search api c =
     bind (denied api c ActionGetAll []) (\<lambda>no.
       if no then reply (SendStatus StatusUnauthorized)
       else case BodyParser c of
         Inl err \<Rightarrow>
           bind (logf (''Error parsing body %v'' @ [CHR 0x0A]) [Arg_err err]) (\<lambda>_.
           reply (SendStatus StatusBadRequest))
       | Inr fltr \<Rightarrow>
           bind (call (Search api) (Call_Search fltr) (\<lambda>f. f fltr)) (\<lambda>vs.
           bind (dtoLoop api vs []) (\<lambda>all.
           reply (JSON (Many all)))))"

definition getOne :: "('t, 'd, 'p, 'a, 'e) Api \<Rightarrow> ('t, 'd, 'p, 'a, 'e) handler" where
  "getOne api c =
     (let id = Params c ''id''
      in bind (call (Find api) (Call_Find id) (\<lambda>f. f id)) (\<lambda>(item, ok).
           if \<not> ok then
             bind (denied api c ActionGetOne []) (\<lambda>no.
               if no then reply (SendStatus StatusUnauthorized)
               else reply (SendStatus StatusNotFound))
           else
             bind (denied api c ActionGetOne [item]) (\<lambda>no.
               if no then reply (SendStatus StatusUnauthorized)
               else bind (call (Dto api) (Call_Dto item) (\<lambda>f. f item)) (\<lambda>d.
                    reply (JSON (One d))))))"

definition createOne :: "('t, 'd, 'p, 'a, 'e) Api \<Rightarrow> ('t, 'd, 'p, 'a, 'e) handler" where
  "createOne api c =
     (case BodyParser c of
        Inl err \<Rightarrow>
          bind (logf (''Error parsing body %v'' @ [CHR 0x0A]) [Arg_err err]) (\<lambda>_.
          reply (SendStatus StatusBadRequest))
      | Inr amended \<Rightarrow>
          bind (denied api c ActionCreate []) (\<lambda>no.
            if no then reply (SendStatus StatusUnauthorized)
            else bind (call (Create api) (Call_Create amended) (\<lambda>f. f amended)) (\<lambda>(item, err).
              case err of
                Some e \<Rightarrow>
                  bind (logf (''Error creating item: %v, %v'' @ [CHR 0x0A]) [Arg_item item, Arg_err e]) (\<lambda>_.
                  reply (SendStatus StatusInternalServerError))
              | None \<Rightarrow>
                  bind (call (Dto api) (Call_Dto item) (\<lambda>f. f item)) (\<lambda>d.
                  reply (JSON (One d))))))"

definition mutateOne :: "('t, 'd, 'p, 'a, 'e) Api \<Rightarrow> ('t, 'd, 'p, 'a, 'e) handler" where
  "mutateOne api c =
     (case BodyParser c of
        Inl err \<Rightarrow>
          bind (logf (''Error parsing body %v'' @ [CHR 0x0A]) [Arg_err err]) (\<lambda>_.
          reply (SendStatus StatusBadRequest))
      | Inr amended \<Rightarrow>
          (let id = Params c ''id''
           in bind (call (Find api) (Call_Find id) (\<lambda>f. f id)) (\<lambda>(item, ok).
                if \<not> ok then
                  bind (denied api c ActionMutate []) (\<lambda>no.
                    if no then reply (SendStatus StatusUnauthorized)
                    else reply (SendStatus StatusNotFound))
                else
                  bind (denied api c ActionMutate [item]) (\<lambda>no.
                    if no then reply (SendStatus StatusUnauthorized)
                    else bind (call (Mutate api) (Call_Mutate item amended) (\<lambda>f. f item amended))
                      (\<lambda>(item1, err).
                        case err of
                          Some e \<Rightarrow>
                            bind (logf (''Error mutating item: %v, %v'' @ [CHR 0x0A])
                                    [Arg_item item1, Arg_err e]) (\<lambda>_.
                            reply (SendStatus StatusInternalServerError))
                        | None \<Rightarrow>
                            bind (call (Dto api) (Call_Dto item1) (\<lambda>f. f item1)) (\<lambda>d.
                            reply (JSON (One d))))))))"

definition deleteOne :: "('t, 'd, 'p, 'a, 'e) Api \<Rightarrow> ('t, 'd, 'p, 'a, 'e) handler" where
  "deleteOne api c =
     (let id = Params c ''id''
      in bind (call (Find api) (Call_Find id) (\<lambda>f. f id)) (\<lambda>(item, ok).
           if \<not> ok then
             bind (denied api c ActionDelete []) (\<lambda>no.
               if no then reply (SendStatus StatusUnauthorized)
               else reply (SendStatus StatusNotFound))
           else
             bind (denied api c ActionDelete [item]) (\<lambda>no.
               if no then reply (SendStatus StatusUnauthorized)
               else bind (call (Delete api) (Call_Delete item) (\<lambda>f. f item)) (\<lambda>(item1, err).
                 case err of
                   Some e \<Rightarrow>
                     bind (logf (''Error deleting item: %v'' @ [CHR 0x0A]) [Arg_err e]) (\<lambda>_.
                     reply (SendStatus StatusInternalServerError))
                 | None \<Rightarrow> reply (SendString ''deleted'')))))"

definition getSubEntity ::
  "('t, 'd, 'p, 'a, 'e) Api \<Rightarrow> ('t \<Rightarrow> 'a list) option \<Rightarrow> ('t, 'd, 'p, 'a, 'e) handler" where
  "getSubEntity api getter c =
     (let id = Params c ''id''
      in bind (call (Find api) (Call_Find id) (\<lambda>f. f id)) (\<lambda>(item, ok).
           if \<not> ok then
             bind (denied api c ActionGetOne []) (\<lambda>no.
               if no then reply (SendStatus StatusUnauthorized)
               else reply (SendStatus StatusNotFound))
           else
             bind (denied api c ActionGetOne [item]) (\<lambda>no.
               if no then reply (SendStatus StatusUnauthorized)
               else bind (call getter (Call_Get item) (\<lambda>g. g item)) (\<lambda>subAll.
                    reply (JSON (Raw subAll))))))"

section \<open>Route registration\<close>

datatype http_method = GET | POST | PUT | DELETE

type_synonym ('t, 'd, 'p, 'a, 'e) route = "http_method \<times> string \<times> ('t, 'd, 'p, 'a, 'e) handler"

text \<open>
  \<open>RegisterAPI\<close> logs one line, opens the group \<open>"/" + Path\<close> and registers the routes in
  the order of the source; each route is an HTTP verb, a path inside the group and the
  handler closure.
\<close>

record ('t, 'd, 'p, 'a, 'e) registration =
  Logged :: "('t, 'd, 'e) event"
  Group :: string
  Routes :: "('t, 'd, 'p, 'a, 'e) route list"

definition RegisterAPI :: "('t, 'd, 'p, 'a, 'e) Api \<Rightarrow> ('t, 'd, 'p, 'a, 'e) registration" where
  "RegisterAPI genericApi =
     \<lparr> Logged = Log_Printf (''Registering REST api %s'' @ [CHR 0x0A]) [Arg_str (Path genericApi)],
       Group = ''/'' @ Path genericApi,
       Routes =
         [(GET, ''/'', getAll genericApi),
          (GET, ''/page/:id'', getAllPage genericApi)]
         @ (if Mutate genericApi \<noteq> None then [(POST, ''/'', createOne genericApi)] else [])
         @ (if Search genericApi \<noteq> None then [(POST, ''/filter'', search genericApi)] else [])
         @ map (\<lambda>subEntity. (GET, ''/:id/'' @ SubPath subEntity,
                              getSubEntity genericApi (Get subEntity)))
               (SubEntities genericApi)
         @ [(GET, ''/:id'', getOne genericApi)]
         @ (if Mutate genericApi \<noteq> None then [(PUT, ''/:id'', mutateOne genericApi)] else [])
         @ (if Delete genericApi \<noteq> None then [(DELETE, ''/:id'', deleteOne genericApi)] else []) \<rparr>"

section \<open>A sample descriptor\<close>

text \<open>
  A small resource used to run the handlers on concrete requests: an entity is an
  identifier with a private string, its transport form is the identifier alone, a page
  is a list of entities and errors are strings. Only the key 7 exists.
\<close>

definition demoFind :: "string \<Rightarrow> (nat \<times> string) \<times> bool" where
  "demoFind key = (if key = ''7'' then ((7, ''s3cret''), True) else ((0, []), False))"

definition demo :: "(nat \<times> string, nat, (nat \<times> string) list, string, string) Api" where
  "demo =
     \<lparr> Path = ''res'',
       Find = Some demoFind,
       FindAllPage = Some (\<lambda>i. if i = 0 then [(7, ''s3cret'')] else []),
       FindAll = Some (\<lambda>_. [(7, ''s3cret'')]),
       Search = Some (\<lambda>d. if d = 7 then [(7, ''s3cret'')] else []),
       Mutate = Some (\<lambda>item d. if d = 0 then (item, Some ''zero id'') else ((d, snd item), None)),
       Create = None,
       Delete = Some (\<lambda>item. if fst item = 7 then (item, None) else (item, Some ''locked'')),
       SubEntities = [\<lparr> SubPath = ''tags'', Get = Some (\<lambda>item. [snd item]) \<rparr>],
       Dto = Some fst,
       Validator = None \<rparr>"

definition denyAll :: "(nat, string) Ctx \<Rightarrow> Action \<Rightarrow> (nat \<times> string) list \<Rightarrow> bool" where
  "denyAll c action items = False"

definition req :: "string \<Rightarrow> string + nat \<Rightarrow> (nat, string) Ctx" where
  "req ident body = \<lparr> Params = (\<lambda>k. if k = ''id'' then ident else []), BodyParser = body \<rparr>"

text \<open>The same resource with a store that refuses to create and to delete.\<close>

definition failing :: "(nat \<times> string, nat, (nat \<times> string) list, string, string) Api" where
  "failing = demo\<lparr> Create := Some (\<lambda>d. ((0, []), Some ''disk full'')),
                   Delete := Some (\<lambda>item. (item, Some ''locked'')) \<rparr>"

section \<open>Properties\<close>

lemmas run_defs = bind_def call_def denied_def reply_def emit_def logf_def

lemma dtoLoop_Some:
  "Dto api = Some dto \<Longrightarrow> dtoLoop api vs all = (map Call_Dto vs, Returned (all @ map dto vs))"
  by (induction vs arbitrary: all) (simp_all add: run_defs)

lemma ParseInt_error_value:
  "snd (ParseInt s) = Some err \<Longrightarrow>
     (err = ErrSyntax \<longrightarrow> fst (ParseInt s) = 0) \<and>
     (err = ErrRange \<longrightarrow> fst (ParseInt s) = (if hd s = CHR ''-'' then - (2 ^ 63) else 2 ^ 63 - 1))"
  by (auto simp: ParseInt_def Let_def split: if_splits)

text \<open>
  Claim C1. In every handler that addresses one item by its key (get-one, update, delete,
  sub-entity list), when the lookup reports that the item is missing, a configured
  authorization predicate is called with no item; if it denies, the response is 401 and
  not 404; if it grants, or if no predicate is configured, the response is 404. The update
  handler reaches the lookup once its body has been decoded.
\<close>

theorem lookup_failure_hides_existence:
  assumes "Find api = Some lookup" and "snd (lookup (Params c ''id'')) = False"
  shows "let key = Params c ''id'';
             expected = (\<lambda>action.
               case Validator api of
                 None \<Rightarrow> ([Call_Find key], Returned (SendStatus StatusNotFound))
               | Some v \<Rightarrow>
                   ([Call_Find key, Call_Validator action []],
                    Returned (SendStatus (if v c action [] then StatusNotFound
                                          else StatusUnauthorized))))
         in getOne api c = expected ActionGetOne
          \<and> deleteOne api c = expected ActionDelete
          \<and> getSubEntity api getter c = expected ActionGetOne
          \<and> (\<forall>amended. BodyParser c = Inr amended \<longrightarrow> mutateOne api c = expected ActionMutate)"
proof -
  obtain item where f: "lookup (Params c ''id'') = (item, False)"
    using assms(2) by (cases "lookup (Params c ''id'')") auto
  have "getOne api c = (case Validator api of
                 None \<Rightarrow> ([Call_Find (Params c ''id'')], Returned (SendStatus StatusNotFound))
               | Some v \<Rightarrow>
                   ([Call_Find (Params c ''id''), Call_Validator ActionGetOne []],
                    Returned (SendStatus (if v c ActionGetOne [] then StatusNotFound
                                          else StatusUnauthorized))))"
    using assms(1) f by (simp add: getOne_def run_defs split: option.splits)
  moreover have "deleteOne api c = (case Validator api of
                 None \<Rightarrow> ([Call_Find (Params c ''id'')], Returned (SendStatus StatusNotFound))
               | Some v \<Rightarrow>
                   ([Call_Find (Params c ''id''), Call_Validator ActionDelete []],
                    Returned (SendStatus (if v c ActionDelete [] then StatusNotFound
                                          else StatusUnauthorized))))"
    using assms(1) f by (simp add: deleteOne_def run_defs split: option.splits)
  moreover have "getSubEntity api getter c = (case Validator api of
                 None \<Rightarrow> ([Call_Find (Params c ''id'')], Returned (SendStatus StatusNotFound))
               | Some v \<Rightarrow>
                   ([Call_Find (Params c ''id''), Call_Validator ActionGetOne []],
                    Returned (SendStatus (if v c ActionGetOne [] then StatusNotFound
                                          else StatusUnauthorized))))"
    using assms(1) f by (simp add: getSubEntity_def run_defs split: option.splits)
  moreover have "\<forall>amended. BodyParser c = Inr amended \<longrightarrow> mutateOne api c = (case Validator api of
                 None \<Rightarrow> ([Call_Find (Params c ''id'')], Returned (SendStatus StatusNotFound))
               | Some v \<Rightarrow>
                   ([Call_Find (Params c ''id''), Call_Validator ActionMutate []],
                    Returned (SendStatus (if v c ActionMutate [] then StatusNotFound
                                          else StatusUnauthorized))))"
    using assms(1) f by (simp add: mutateOne_def run_defs split: option.splits)
  ultimately show ?thesis by (simp add: Let_def)
qed

theorem lookup_failure_hides_existence_witness:
  "getOne (demo\<lparr>Validator := Some denyAll\<rparr>) (req ''8'' (Inr 1))
     = ([Call_Find ''8'', Call_Validator ActionGetOne []], Returned (SendStatus StatusUnauthorized))
   \<and> mutateOne (demo\<lparr>Validator := Some denyAll\<rparr>) (req ''8'' (Inr 1))
     = ([Call_Find ''8'', Call_Validator ActionMutate []], Returned (SendStatus StatusUnauthorized))
   \<and> deleteOne demo (req ''8'' (Inr 1)) = ([Call_Find ''8''], Returned (SendStatus StatusNotFound))"
  using lookup_failure_hides_existence [of "demo\<lparr>Validator := Some denyAll\<rparr>" demoFind "req ''8'' (Inr 1)" None]
    lookup_failure_hides_existence [of demo demoFind "req ''8'' (Inr 1)" None]
  by (simp add: demo_def demoFind_def req_def denyAll_def Let_def)

text \<open>
  Claim C2. In every handler that addresses one item by its key, when the lookup finds the
  item the authorization predicate is called with that item. If it denies, the response is
  401 and nothing else happens, whatever the operation would have done. If it grants, the
  handler goes on to its effect: the next call is the conversion (get-one), the getter
  (sub-entity list), \<open>Delete\<close> or \<open>Mutate\<close>.
\<close>

theorem lookup_success_checks_item:
  assumes "Find api = Some lookup" and "lookup (Params c ''id'') = (item, True)"
    and "Validator api = Some v"
  shows "let key = Params c ''id'';
             checked = (\<lambda>action. [Call_Find key, Call_Validator action [item]]);
             refused = (\<lambda>action. (checked action, Returned (SendStatus StatusUnauthorized)))
         in (\<not> v c ActionGetOne [item] \<longrightarrow>
               getOne api c = refused ActionGetOne \<and> getSubEntity api getter c = refused ActionGetOne)
          \<and> (\<not> v c ActionDelete [item] \<longrightarrow> deleteOne api c = refused ActionDelete)
          \<and> (\<not> v c ActionMutate [item] \<longrightarrow>
               (\<forall>amended. BodyParser c = Inr amended \<longrightarrow> mutateOne api c = refused ActionMutate))
          \<and> (v c ActionGetOne [item] \<longrightarrow>
               (\<forall>dto. Dto api = Some dto \<longrightarrow>
                  getOne api c = (checked ActionGetOne @ [Call_Dto item], Returned (JSON (One (dto item)))))
             \<and> (\<forall>g. getter = Some g \<longrightarrow>
                  getSubEntity api getter c
                    = (checked ActionGetOne @ [Call_Get item], Returned (JSON (Raw (g item))))))
          \<and> (v c ActionDelete [item] \<longrightarrow> Delete api \<noteq> None \<longrightarrow>
               take 3 (fst (deleteOne api c)) = checked ActionDelete @ [Call_Delete item])
          \<and> (v c ActionMutate [item] \<longrightarrow> Mutate api \<noteq> None \<longrightarrow>
               (\<forall>amended. BodyParser c = Inr amended \<longrightarrow>
                  take 3 (fst (mutateOne api c)) = checked ActionMutate @ [Call_Mutate item amended]))"
proof -
  have g: "\<not> v c ActionGetOne [item] \<Longrightarrow>
        getOne api c = ([Call_Find (Params c ''id''), Call_Validator ActionGetOne [item]],
                        Returned (SendStatus StatusUnauthorized))"
    using assms by (simp add: getOne_def run_defs)
  have s: "\<not> v c ActionGetOne [item] \<Longrightarrow>
        getSubEntity api getter c = ([Call_Find (Params c ''id''), Call_Validator ActionGetOne [item]],
                        Returned (SendStatus StatusUnauthorized))"
    using assms by (simp add: getSubEntity_def run_defs)
  have d: "\<not> v c ActionDelete [item] \<Longrightarrow>
        deleteOne api c = ([Call_Find (Params c ''id''), Call_Validator ActionDelete [item]],
                        Returned (SendStatus StatusUnauthorized))"
    using assms by (simp add: deleteOne_def run_defs)
  have m: "\<not> v c ActionMutate [item] \<Longrightarrow> BodyParser c = Inr amended \<Longrightarrow>
        mutateOne api c = ([Call_Find (Params c ''id''), Call_Validator ActionMutate [item]],
                        Returned (SendStatus StatusUnauthorized))" for amended
    using assms by (simp add: mutateOne_def run_defs)
  have g2: "v c ActionGetOne [item] \<Longrightarrow> Dto api = Some dto \<Longrightarrow>
        getOne api c = ([Call_Find (Params c ''id''), Call_Validator ActionGetOne [item], Call_Dto item],
                        Returned (JSON (One (dto item))))" for dto
    using assms by (simp add: getOne_def run_defs)
  have s2: "v c ActionGetOne [item] \<Longrightarrow> getter = Some g \<Longrightarrow>
        getSubEntity api getter c = ([Call_Find (Params c ''id''), Call_Validator ActionGetOne [item], Call_Get item],
                        Returned (JSON (Raw (g item))))" for g
    using assms by (simp add: getSubEntity_def run_defs)
  have d2: "v c ActionDelete [item] \<Longrightarrow> Delete api \<noteq> None \<Longrightarrow>
        take 3 (fst (deleteOne api c)) = [Call_Find (Params c ''id''), Call_Validator ActionDelete [item], Call_Delete item]"
    using assms by (auto simp add: deleteOne_def run_defs split: prod.splits option.splits)
  have m2: "v c ActionMutate [item] \<Longrightarrow> Mutate api \<noteq> None \<Longrightarrow> BodyParser c = Inr amended \<Longrightarrow>
        take 3 (fst (mutateOne api c)) = [Call_Find (Params c ''id''), Call_Validator ActionMutate [item], Call_Mutate item amended]" for amended
    using assms by (auto simp add: mutateOne_def run_defs split: prod.splits option.splits)
  show ?thesis
    using g s d m g2 s2 d2 m2 by (simp add: Let_def)
qed

theorem lookup_success_checks_item_witness:
  "getOne (demo\<lparr>Validator := Some denyAll\<rparr>) (req ''7'' (Inr 1))
     = ([Call_Find ''7'', Call_Validator ActionGetOne [(7, ''s3cret'')]],
        Returned (SendStatus StatusUnauthorized))
   \<and> getOne (demo\<lparr>Validator := Some (\<lambda>c action items. True)\<rparr>) (req ''7'' (Inr 1))
     = ([Call_Find ''7'', Call_Validator ActionGetOne [(7, ''s3cret'')], Call_Dto (7, ''s3cret'')],
        Returned (JSON (One 7)))
   \<and> mutateOne (demo\<lparr>Validator := Some denyAll\<rparr>) (req ''7'' (Inr 1))
     = ([Call_Find ''7'', Call_Validator ActionMutate [(7, ''s3cret'')]],
        Returned (SendStatus StatusUnauthorized))"
  using lookup_success_checks_item [of "demo\<lparr>Validator := Some denyAll\<rparr>" demoFind
          "req ''7'' (Inr 1)" "(7, ''s3cret'')" denyAll None]
    lookup_success_checks_item [of "demo\<lparr>Validator := Some (\<lambda>c action items. True)\<rparr>" demoFind
          "req ''7'' (Inr 1)" "(7, ''s3cret'')" "\<lambda>c action items. True" None]
  by (simp add: demo_def demoFind_def req_def denyAll_def Let_def)

text \<open>
  Claim C3. Route exposure follows the capabilities of the descriptor. The list, the paged
  list, get-one and one route for each declared sub-entity are always registered. The
  create route (POST /) and the update route (PUT /:id) are registered exactly when
  \<open>Mutate\<close> is not nil, the search route exactly when \<open>Search\<close> is not nil and the
  delete route exactly when \<open>Delete\<close> is not nil; nothing else is registered.
\<close>

theorem route_exposure:
  "let R = set (Routes (RegisterAPI api))
   in (GET, ''/'', getAll api) \<in> R
    \<and> (GET, ''/page/:id'', getAllPage api) \<in> R
    \<and> (GET, ''/:id'', getOne api) \<in> R
    \<and> (\<forall>s \<in> set (SubEntities api). (GET, ''/:id/'' @ SubPath s, getSubEntity api (Get s)) \<in> R)
    \<and> ((\<exists>h. (POST, ''/'', h) \<in> R) \<longleftrightarrow> Mutate api \<noteq> None)
    \<and> ((\<exists>h. (PUT, ''/:id'', h) \<in> R) \<longleftrightarrow> Mutate api \<noteq> None)
    \<and> ((\<exists>h. (POST, ''/filter'', h) \<in> R) \<longleftrightarrow> Search api \<noteq> None)
    \<and> ((\<exists>h. (DELETE, ''/:id'', h) \<in> R) \<longleftrightarrow> Delete api \<noteq> None)
    \<and> (Mutate api \<noteq> None \<longrightarrow> (POST, ''/'', createOne api) \<in> R \<and> (PUT, ''/:id'', mutateOne api) \<in> R)
    \<and> (Search api \<noteq> None \<longrightarrow> (POST, ''/filter'', search api) \<in> R)
    \<and> (Delete api \<noteq> None \<longrightarrow> (DELETE, ''/:id'', deleteOne api) \<in> R)
    \<and> length (Routes (RegisterAPI api))
        = 3 + length (SubEntities api) + (if Mutate api \<noteq> None then 2 else 0)
            + (if Search api \<noteq> None then 1 else 0) + (if Delete api \<noteq> None then 1 else 0)"
  by (auto simp add: RegisterAPI_def Let_def)

theorem route_exposure_witness:
  "(GET, ''/:id/tags'', getSubEntity demo (Some (\<lambda>item. [snd item]))) \<in> set (Routes (RegisterAPI demo))
   \<and> (POST, ''/'', createOne demo) \<in> set (Routes (RegisterAPI demo))
   \<and> (\<forall>h. (DELETE, ''/:id'', h) \<notin> set (Routes (RegisterAPI (demo\<lparr>Delete := None\<rparr>))))
   \<and> length (Routes (RegisterAPI demo)) = 8"
  using route_exposure [of demo] route_exposure [of "demo\<lparr>Delete := None\<rparr>"]
  by (simp add: demo_def Let_def)

text \<open>
  Claim C4 says that create, update and search all answer an undecodable body with 400
  before the authorization predicate is called. The search handler checks the permission
  first: with a predicate that denies, an undecodable body is answered with 401 after one
  call of the predicate.
\<close>

theorem search_checks_before_parsing_counterexample:
  "BodyParser (req [] (Inl ''unexpected end of JSON input'')) = Inl ''unexpected end of JSON input''
   \<and> snd (search (demo\<lparr>Validator := Some denyAll\<rparr>) (req [] (Inl ''unexpected end of JSON input'')))
       \<noteq> Returned (SendStatus StatusBadRequest)
   \<and> fst (search (demo\<lparr>Validator := Some denyAll\<rparr>) (req [] (Inl ''unexpected end of JSON input'')))
       = [Call_Validator ActionGetAll []]"
  by (simp add: search_def run_defs demo_def req_def denyAll_def StatusBadRequest_def StatusUnauthorized_def)

text \<open>
  Claim C4, amended. In the create and update handlers a body that cannot be decoded is
  answered with 400 and the authorization predicate is not called at all. The search
  handler calls a configured predicate first, with \<open>ActionGetAll\<close> and no item: if it
  denies the response is 401, and otherwise the undecodable body is answered with 400.
\<close>

theorem malformed_body_rejected:
  assumes "BodyParser c = Inl err"
  shows "let logged = Log_Printf (''Error parsing body %v'' @ [CHR 0x0A]) [Arg_err err];
             bad = Returned (SendStatus StatusBadRequest)
         in createOne api c = ([logged], bad)
          \<and> mutateOne api c = ([logged], bad)
          \<and> search api c =
              (case Validator api of
                 None \<Rightarrow> ([logged], bad)
               | Some v \<Rightarrow>
                   if v c ActionGetAll [] then ([Call_Validator ActionGetAll [], logged], bad)
                   else ([Call_Validator ActionGetAll []], Returned (SendStatus StatusUnauthorized)))"
  using assms
  by (simp add: createOne_def mutateOne_def search_def run_defs Let_def split: option.splits)

theorem malformed_body_rejected_witness:
  "createOne (demo\<lparr>Validator := Some denyAll\<rparr>) (req [] (Inl ''EOF''))
     = ([Log_Printf (''Error parsing body %v'' @ [CHR 0x0A]) [Arg_err ''EOF'']],
        Returned (SendStatus StatusBadRequest))
   \<and> search (demo\<lparr>Validator := Some denyAll\<rparr>) (req [] (Inl ''EOF''))
     = ([Call_Validator ActionGetAll []], Returned (SendStatus StatusUnauthorized))"
  using malformed_body_rejected [of "req [] (Inl ''EOF'')" "''EOF''" "demo\<lparr>Validator := Some denyAll\<rparr>"]
  by (simp add: demo_def req_def denyAll_def Let_def)

subsection \<open>The paged list and the conversion to the transport type\<close>

lemma ParseInt_zero: "ParseInt ''0'' = (0, None)"
  by (simp add: ParseInt_def ParseUint_def maxUint64_def)

lemma ParseInt_two_to_63: "ParseInt ''9223372036854775808'' = (0x7FFFFFFFFFFFFFFF, Some ErrRange)"
  by (simp add: ParseInt_def ParseUint_def maxUint64_def)

lemma ParseInt_letters: "ParseInt ''abc'' = (0, Some ErrSyntax)"
  by (simp add: ParseInt_def ParseUint_def maxUint64_def)

lemma getAll_converts:
  assumes "Validator api = None" and "FindAll api = Some fa" and "Dto api = Some dto"
  shows "getAll api c = (Call_FindAll # map Call_Dto (fa ()), Returned (JSON (Many (map dto (fa ())))))"
  using assms by (simp add: getAll_def run_defs dtoLoop_Some)

text \<open>
  Claim C5. The conversion \<open>Dto\<close> is to be applied to every entity that leaves the system.
  The list handler does so, and the paged list does not: on the sample resource, whose
  conversion keeps the identifier only, the list answers with the identifier 7 while the
  paged list answers with the stored entity, private string included, and never calls
  \<open>Dto\<close>.
\<close>

theorem paged_list_serializes_raw_entity:
  "Dto demo = Some fst
   \<and> getAll demo (req [] (Inr 0))
       = ([Call_FindAll, Call_Dto (7, ''s3cret'')], Returned (JSON (Many [7])))
   \<and> getAllPage demo (req ''0'' (Inr 0))
       = ([Call_FindAllPage 0], Returned (JSON (Paged [(7, ''s3cret'')])))"
  by (simp add: getAll_def getAllPage_def run_defs demo_def req_def ParseInt_zero)

text \<open>
  Claim C6 says that with \<open>Mutate\<close> set and \<open>Create\<close> nil, any create request with a
  well-formed body reaches the call through the nil function. A predicate that denies
  stops the request before that call: the answer is 401.
\<close>

theorem create_denied_before_nil_call_counterexample:
  "Mutate (demo\<lparr>Validator := Some denyAll\<rparr>) \<noteq> None
   \<and> Create (demo\<lparr>Validator := Some denyAll\<rparr>) = None
   \<and> BodyParser (req [] (Inr 1)) = Inr 1
   \<and> createOne (demo\<lparr>Validator := Some denyAll\<rparr>) (req [] (Inr 1))
       = ([Call_Validator ActionCreate []], Returned (SendStatus StatusUnauthorized))"
  by (simp add: createOne_def run_defs demo_def req_def denyAll_def)

text \<open>
  Claim C6, amended. For a descriptor whose \<open>Mutate\<close> is set and whose \<open>Create\<close> is nil, the
  create route POST / is registered all the same, and every create request with a
  well-formed body that passes the permission check (no predicate configured, or the
  predicate grants) reaches the call through the nil \<open>Create\<close>: the handler panics instead
  of responding.
\<close>

theorem create_route_calls_nil_create:
  assumes "Mutate api \<noteq> None" and "Create api = None" and "BodyParser c = Inr amended"
    and "case Validator api of None \<Rightarrow> True | Some v \<Rightarrow> v c ActionCreate []"
  shows "(POST, ''/'', createOne api) \<in> set (Routes (RegisterAPI api))
       \<and> snd (createOne api c) = NilDeref
       \<and> fst (createOne api c)
           = (case Validator api of None \<Rightarrow> [] | Some v \<Rightarrow> [Call_Validator ActionCreate []])"
  using assms
  by (auto simp add: RegisterAPI_def createOne_def run_defs split: option.splits)

theorem create_route_calls_nil_create_witness:
  "(POST, ''/'', createOne demo) \<in> set (Routes (RegisterAPI demo))
   \<and> createOne demo (req [] (Inr 1)) = ([], NilDeref)"
  using create_route_calls_nil_create [of demo "req [] (Inr 1)" 1]
  by (simp add: demo_def req_def prod_eq_iff)

text \<open>
  Claim C7 says that after a page token that does not parse, \<open>FindAllPage\<close> is called with
  the zero token. The token 9223372036854775808 is out of range for \<open>int64\<close>: the parser
  reports a range error together with the largest \<open>int64\<close>, and that value is what
  \<open>FindAllPage\<close> receives, so the answer is not the page of token 0.
\<close>

theorem paged_list_range_error_counterexample:
  "snd (ParseInt (Params (req ''9223372036854775808'' (Inr 0)) ''id'')) = Some ErrRange
   \<and> getAllPage demo (req ''9223372036854775808'' (Inr 0))
       = ([Call_FindAllPage 0x7FFFFFFFFFFFFFFF], Returned (JSON (Paged [])))
   \<and> getAllPage demo (req ''0'' (Inr 0))
       = ([Call_FindAllPage 0], Returned (JSON (Paged [(7, ''s3cret'')])))"
  by (simp add: getAllPage_def run_defs demo_def req_def ParseInt_zero ParseInt_two_to_63)

text \<open>
  Claim C7, amended. When the page token does not parse, the paged list never answers 400:
  it drops the error and goes on with the value the parser returned, which is 0 after a
  syntax error and the nearest bound of \<open>int64\<close> after a range error. Once the permission
  check passes (no predicate configured, or it grants), \<open>FindAllPage\<close> is called with that
  value and the page it returns is the response.
\<close>

theorem paged_list_swallows_parse_error:
  assumes "snd (ParseInt (Params c ''id'')) = Some err"
  shows "let key = Params c ''id'';
             token = (case err of
                        ErrSyntax \<Rightarrow> 0
                      | ErrRange \<Rightarrow> if hd key = CHR ''-'' then - (2 ^ 63) else 2 ^ 63 - 1)
         in snd (getAllPage api c) \<noteq> Returned (SendStatus StatusBadRequest)
          \<and> (\<forall>f. FindAllPage api = Some f \<longrightarrow>
                (case Validator api of
                   None \<Rightarrow>
                     getAllPage api c = ([Call_FindAllPage token], Returned (JSON (Paged (f token))))
                 | Some v \<Rightarrow>
                     v c ActionGetAll [] \<longrightarrow>
                     getAllPage api c = ([Call_Validator ActionGetAll [], Call_FindAllPage token],
                                         Returned (JSON (Paged (f token))))))"
proof -
  have tok: "fst (ParseInt (Params c ''id''))
      = (case err of ErrSyntax \<Rightarrow> 0
         | ErrRange \<Rightarrow> if hd (Params c ''id'') = CHR ''-'' then - (2 ^ 63) else 2 ^ 63 - 1)"
    using ParseInt_error_value [OF assms] by (cases err) simp_all
  have no400: "snd (getAllPage api c) \<noteq> Returned (SendStatus StatusBadRequest)"
    by (simp add: getAllPage_def run_defs Let_def StatusBadRequest_def StatusUnauthorized_def
          split: option.splits)
  have run: "FindAllPage api = Some f \<Longrightarrow>
       (case Validator api of
          None \<Rightarrow> getAllPage api c
                   = ([Call_FindAllPage (fst (ParseInt (Params c ''id'')))],
                      Returned (JSON (Paged (f (fst (ParseInt (Params c ''id'')))))))
        | Some v \<Rightarrow> v c ActionGetAll [] \<longrightarrow>
             getAllPage api c
               = ([Call_Validator ActionGetAll [], Call_FindAllPage (fst (ParseInt (Params c ''id'')))],
                  Returned (JSON (Paged (f (fst (ParseInt (Params c ''id''))))))))" for f
    by (simp add: getAllPage_def run_defs Let_def split: option.splits)
  show ?thesis
    unfolding Let_def using no400 run by (simp only: tok [symmetric]) blast
qed

theorem paged_list_swallows_parse_error_witness:
  "getAllPage demo (req ''abc'' (Inr 0))
     = ([Call_FindAllPage 0], Returned (JSON (Paged [(7, ''s3cret'')])))
   \<and> getAllPage demo (req ''9223372036854775808'' (Inr 0))
     = ([Call_FindAllPage (2 ^ 63 - 1)], Returned (JSON (Paged [])))"
  using paged_list_swallows_parse_error [of "req ''abc'' (Inr 0)" ErrSyntax demo]
    paged_list_swallows_parse_error [of "req ''9223372036854775808'' (Inr 0)" ErrRange demo]
  by (simp add: demo_def req_def Let_def ParseInt_letters ParseInt_two_to_63)


text \<open>
  Claim C8. The paged list responds with the page that \<open>FindAllPage\<close> returned, as it is:
  \<open>Dto\<close> is never called, and a response other than 401 carries exactly that page.
\<close>

theorem paged_list_not_converted:
  "let token = fst (ParseInt (Params c ''id''))
   in (\<forall>item. Call_Dto item \<notin> set (fst (getAllPage api c)))
    \<and> (\<forall>r. snd (getAllPage api c) = Returned r \<longrightarrow>
          r = SendStatus StatusUnauthorized
          \<or> (\<exists>f. FindAllPage api = Some f \<and> r = JSON (Paged (f token))))
    \<and> (\<forall>f. FindAllPage api = Some f \<longrightarrow>
          (case Validator api of None \<Rightarrow> True | Some v \<Rightarrow> v c ActionGetAll []) \<longrightarrow>
          snd (getAllPage api c) = Returned (JSON (Paged (f token)))
          \<and> last (fst (getAllPage api c)) = Call_FindAllPage token)"
  by (auto simp add: getAllPage_def run_defs Let_def split: option.splits)

theorem paged_list_not_converted_witness:
  "getAllPage demo (req ''0'' (Inr 0)) = ([Call_FindAllPage 0], Returned (JSON (Paged [(7, ''s3cret'')])))
   \<and> Call_Dto (7, ''s3cret'') \<notin> set (fst (getAllPage demo (req ''0'' (Inr 0))))"
  using paged_list_not_converted [of "req ''0'' (Inr 0)" demo]
  by (simp add: getAllPage_def run_defs demo_def req_def Let_def ParseInt_zero)

subsection \<open>Delete and the failures of the collaborators\<close>

text \<open>
  Claim C9. Deleting an item that exists, that the caller may delete and whose \<open>Delete\<close>
  succeeds is answered with the plain string \<open>deleted\<close>; no transport value is built.
\<close>

theorem delete_confirms_plainly:
  assumes "Find api = Some lookup" and "lookup (Params c ''id'') = (item, True)"
    and "case Validator api of None \<Rightarrow> True | Some v \<Rightarrow> v c ActionDelete [item]"
    and "Delete api = Some del" and "snd (del item) = None"
  shows "snd (deleteOne api c) = Returned (SendString ''deleted'')
       \<and> (\<forall>x. Call_Dto x \<notin> set (fst (deleteOne api c)))
       \<and> last (fst (deleteOne api c)) = Call_Delete item"
  using assms
  by (cases "del item") (auto simp add: deleteOne_def run_defs split: option.splits)

theorem delete_confirms_plainly_witness:
  "deleteOne demo (req ''7'' (Inr 0))
     = ([Call_Find ''7'', Call_Delete (7, ''s3cret'')], Returned (SendString ''deleted''))"
  using delete_confirms_plainly [of demo demoFind "req ''7'' (Inr 0)" "(7, ''s3cret'')"
          "\<lambda>item. if fst item = 7 then (item, None) else (item, Some ''locked'')"]
  by (simp add: deleteOne_def run_defs demo_def demoFind_def req_def)

lemma createOne_failure:
  assumes "Create api = Some f" and "Call_Create amended \<in> set (fst (createOne api c))"
    and "f amended = (item, Some e)"
  shows "snd (createOne api c) = Returned (SendStatus StatusInternalServerError)
       \<and> last (fst (createOne api c))
           = Log_Printf (''Error creating item: %v, %v'' @ [CHR 0x0A]) [Arg_item item, Arg_err e]"
proof (cases "BodyParser c")
  case (Inl err)
  then show ?thesis using assms(2) by (simp add: createOne_def run_defs)
next
  case (Inr d)
  then have "d = amended"
    using assms(1,2) by (auto simp add: createOne_def run_defs split: option.splits if_splits prod.splits)
  then show ?thesis
    using Inr assms by (auto simp add: createOne_def run_defs split: option.splits)
qed

lemma mutateOne_failure:
  assumes "Mutate api = Some m" and "Call_Mutate item amended \<in> set (fst (mutateOne api c))"
    and "m item amended = (item1, Some e)"
  shows "snd (mutateOne api c) = Returned (SendStatus StatusInternalServerError)
       \<and> last (fst (mutateOne api c))
           = Log_Printf (''Error mutating item: %v, %v'' @ [CHR 0x0A]) [Arg_item item1, Arg_err e]"
proof (cases "BodyParser c")
  case (Inl err)
  then show ?thesis using assms(2) by (simp add: mutateOne_def run_defs)
next
  case (Inr d)
  show ?thesis
  proof (cases "Find api")
    case None
    then show ?thesis using Inr assms(2) by (simp add: mutateOne_def run_defs)
  next
    case (Some lookup)
    obtain it ok where l: "lookup (Params c ''id'') = (it, ok)"
      by (cases "lookup (Params c ''id'')") auto
    have "ok \<and> it = item \<and> d = amended"
      using Inr Some l assms(1,2)
      by (auto simp add: mutateOne_def run_defs split: option.splits if_splits prod.splits)
    then show ?thesis
      using Inr Some l assms
      by (auto simp add: mutateOne_def run_defs split: option.splits if_splits)
  qed
qed

lemma deleteOne_failure:
  assumes "Delete api = Some del" and "Call_Delete item \<in> set (fst (deleteOne api c))"
    and "del item = (item1, Some e)"
  shows "snd (deleteOne api c) = Returned (SendStatus StatusInternalServerError)
       \<and> last (fst (deleteOne api c))
           = Log_Printf (''Error deleting item: %v'' @ [CHR 0x0A]) [Arg_err e]"
proof (cases "Find api")
  case None
  then show ?thesis using assms(2) by (simp add: deleteOne_def run_defs)
next
  case (Some lookup)
  obtain it ok where l: "lookup (Params c ''id'') = (it, ok)"
    by (cases "lookup (Params c ''id'')") auto
  have "ok \<and> it = item"
    using Some l assms(1,2)
    by (auto simp add: deleteOne_def run_defs split: option.splits if_splits prod.splits)
  then show ?thesis
    using Some l assms
    by (auto simp add: deleteOne_def run_defs split: option.splits if_splits)
qed

text \<open>
  Claim C10. Whenever \<open>Create\<close>, \<open>Mutate\<close> or \<open>Delete\<close> is called and returns an error, the
  response is the bare status 500, the same for every error; the error itself goes to the
  log line that ends the trace and to nothing else.
\<close>

theorem collaborator_failure_is_500:
  "(\<forall>f amended item e.
      Create api = Some f \<and> Call_Create amended \<in> set (fst (createOne api c))
        \<and> f amended = (item, Some e) \<longrightarrow>
      snd (createOne api c) = Returned (SendStatus StatusInternalServerError)
      \<and> last (fst (createOne api c))
          = Log_Printf (''Error creating item: %v, %v'' @ [CHR 0x0A]) [Arg_item item, Arg_err e])
   \<and> (\<forall>m item amended item1 e.
      Mutate api = Some m \<and> Call_Mutate item amended \<in> set (fst (mutateOne api c))
        \<and> m item amended = (item1, Some e) \<longrightarrow>
      snd (mutateOne api c) = Returned (SendStatus StatusInternalServerError)
      \<and> last (fst (mutateOne api c))
          = Log_Printf (''Error mutating item: %v, %v'' @ [CHR 0x0A]) [Arg_item item1, Arg_err e])
   \<and> (\<forall>del item item1 e.
      Delete api = Some del \<and> Call_Delete item \<in> set (fst (deleteOne api c))
        \<and> del item = (item1, Some e) \<longrightarrow>
      snd (deleteOne api c) = Returned (SendStatus StatusInternalServerError)
      \<and> last (fst (deleteOne api c))
          = Log_Printf (''Error deleting item: %v'' @ [CHR 0x0A]) [Arg_err e])"
  using createOne_failure [of api _ _ c] mutateOne_failure [of api _ _ _ c]
    deleteOne_failure [of api _ _ c]
  by blast

theorem collaborator_failure_is_500_witness:
  "createOne failing (req [] (Inr 9))
     = ([Call_Create 9,
         Log_Printf (''Error creating item: %v, %v'' @ [CHR 0x0A]) [Arg_item (0, []), Arg_err ''disk full'']],
        Returned (SendStatus StatusInternalServerError))
   \<and> snd (mutateOne failing (req ''7'' (Inr 0))) = Returned (SendStatus StatusInternalServerError)
   \<and> snd (deleteOne failing (req ''7'' (Inr 0))) = Returned (SendStatus StatusInternalServerError)"
  using collaborator_failure_is_500 [of failing "req [] (Inr 9)"]
    collaborator_failure_is_500 [of failing "req ''7'' (Inr 0)"]
  by (simp add: createOne_def mutateOne_def deleteOne_def run_defs failing_def demo_def
        demoFind_def req_def)

end
